theory Spec2Isabelle
  imports Complex_Main "HOL-Library.Word"
begin

section \<open>JavaScript values used by the components\<close>

text \<open>
  A JavaScript string is a sequence of UTF-16 code units. String literals of the source
  that are plain ASCII are written through \<open>js\<close>.
\<close>

type_synonym jsstring = "16 word list"

definition js :: "string \<Rightarrow> jsstring" where
  "js cs = map (\<lambda>c. of_nat (of_char c)) cs"

text \<open>
  \<open>String.prototype.trim\<close> strips, at both ends, the code units of the ECMAScript
  productions WhiteSpace (TAB, VT, FF, SP, NBSP, ZWNBSP and the category Zs) and
  LineTerminator (LF, CR, LS, PS).
\<close>

definition isWhiteSpace :: "16 word \<Rightarrow> bool" where
  "isWhiteSpace c \<longleftrightarrow>
     c \<in> set [0x0009, 0x000A, 0x000B, 0x000C, 0x000D, 0x0020, 0x00A0, 0x1680,
               0x2028, 0x2029, 0x202F, 0x205F, 0x3000, 0xFEFF]
     \<or> (0x2000 \<le> c \<and> c \<le> 0x200A)"

definition trim :: "jsstring \<Rightarrow> jsstring" where
  "trim s = rev (dropWhile isWhiteSpace (rev (dropWhile isWhiteSpace s)))"

text \<open>
  The type \<open>number\<close>: the three special values of IEEE 754 and the finite values. Finite
  arithmetic is exact here; the rounding of doubles is not part of the model.
\<close>

datatype jsnum = NaN | NegInf | PosInf | Fin real

fun js_sub :: "jsnum \<Rightarrow> jsnum \<Rightarrow> jsnum" where
  "js_sub NaN _ = NaN"
| "js_sub _ NaN = NaN"
| "js_sub PosInf PosInf = NaN"
| "js_sub NegInf NegInf = NaN"
| "js_sub PosInf _ = PosInf"
| "js_sub NegInf _ = NegInf"
| "js_sub (Fin _) PosInf = NegInf"
| "js_sub (Fin _) NegInf = PosInf"
| "js_sub (Fin a) (Fin b) = Fin (a - b)"

fun js_mul :: "jsnum \<Rightarrow> jsnum \<Rightarrow> jsnum" where
  "js_mul NaN _ = NaN"
| "js_mul _ NaN = NaN"
| "js_mul (Fin a) (Fin b) = Fin (a * b)"
| "js_mul (Fin a) PosInf = (if a = 0 then NaN else if 0 < a then PosInf else NegInf)"
| "js_mul (Fin a) NegInf = (if a = 0 then NaN else if 0 < a then NegInf else PosInf)"
| "js_mul PosInf (Fin b) = (if b = 0 then NaN else if 0 < b then PosInf else NegInf)"
| "js_mul NegInf (Fin b) = (if b = 0 then NaN else if 0 < b then NegInf else PosInf)"
| "js_mul PosInf PosInf = PosInf"
| "js_mul NegInf NegInf = PosInf"
| "js_mul PosInf NegInf = NegInf"
| "js_mul NegInf PosInf = NegInf"

text \<open>\<open>Math.max\<close> and \<open>Math.min\<close> of two arguments: NaN as soon as one argument is.\<close>

fun Math_max :: "jsnum \<Rightarrow> jsnum \<Rightarrow> jsnum" where
  "Math_max NaN _ = NaN"
| "Math_max _ NaN = NaN"
| "Math_max PosInf _ = PosInf"
| "Math_max _ PosInf = PosInf"
| "Math_max NegInf b = b"
| "Math_max a NegInf = a"
| "Math_max (Fin a) (Fin b) = Fin (max a b)"

fun Math_min :: "jsnum \<Rightarrow> jsnum \<Rightarrow> jsnum" where
  "Math_min NaN _ = NaN"
| "Math_min _ NaN = NaN"
| "Math_min NegInf _ = NegInf"
| "Math_min _ NegInf = NegInf"
| "Math_min PosInf b = b"
| "Math_min a PosInf = a"
| "Math_min (Fin a) (Fin b) = Fin (min a b)"

section \<open>ProductCard: the star row and the card\<close>

text \<open>
  One element of the array \<open>renderStars\<close> returns: its React key and the
  \<open>filledPercentage\<close> that becomes the width \<open>`${filledPercentage}%`\<close> of the coloured
  star. The two copies of \<open>renderStars\<close> in the repository differ in pixel sizes only.
\<close>

record star =
  key :: nat
  filledPercentage :: jsnum

definition star_of :: "jsnum \<Rightarrow> nat \<Rightarrow> star" where
  "star_of rating i =
     \<lparr>key = i,
      filledPercentage =
        js_mul (Math_min (Math_max (js_sub rating (Fin (real i - 1))) (Fin 0)) (Fin 1))
               (Fin 100)\<rparr>"

text \<open>The loop \<open>for (let i = 1; i <= 5; i++) stars.push(...)\<close>.\<close>

function renderStars_loop :: "jsnum \<Rightarrow> nat \<Rightarrow> star list \<Rightarrow> star list" where
  "renderStars_loop rating i stars =
     (if i \<le> 5 then renderStars_loop rating (i + 1) (stars @ [star_of rating i])
      else stars)"
  by pat_completeness auto
termination
  by (relation "measure (\<lambda>(rating, i, stars). 6 - i)") auto

declare renderStars_loop.simps [simp del]

definition renderStars :: "jsnum \<Rightarrow> star list" where
  "renderStars rating = renderStars_loop rating 1 []"

text \<open>
  What the platform supplies: the build-time variable \<open>NEXT_PUBLIC_API_URL\<close> (possibly
  unset) and the two number formatters \<open>toLocaleString('tr-TR')\<close> and
  \<open>toLocaleString()\<close>.
\<close>

record env =
  NEXT_PUBLIC_API_URL :: "jsstring option"
  toLocaleString_trTR :: "jsnum \<Rightarrow> jsstring"
  toLocaleString :: "jsnum \<Rightarrow> jsstring"

record ProductCardProps =
  imageUrl :: jsstring
  title :: jsstring
  price :: jsstring
  rating :: jsnum
  rating_count :: jsnum
  description :: jsstring
  link :: jsstring

text \<open>The rendered card: the attributes and texts of the elements \<open>ProductCard\<close> returns.\<close>

record card =
  img_src :: jsstring
  img_alt :: jsstring
  h3 :: jsstring
  stars :: "star list"
  reviewText :: jsstring
  priceText :: jsstring
  a_href :: jsstring
  a_target :: jsstring
  box_text :: jsstring

definition ProductCard :: "env \<Rightarrow> ProductCardProps \<Rightarrow> card" where
  "ProductCard e props =
     \<lparr>img_src = imageUrl props,
      img_alt = title props,
      h3 = title props,
      stars = renderStars (rating props),
      reviewText = js ''('' @ toLocaleString e (rating_count props)
                   @ js '' de'' @ [0x011F] @ js ''erlendirme)'',
      priceText = price props,
      a_href = link props,
      a_target = js ''_blank'',
      box_text = description props\<rparr>"

section \<open>ProductRecommender\<close>

record Product =
  title :: jsstring
  price :: jsnum
  rating :: jsnum
  rating_count :: jsnum
  description :: jsstring
  image :: "jsstring option"
  link :: jsstring

text \<open>The request handed to \<open>axios.post(url, data)\<close>; \<open>data\<close> is the object literal.\<close>

datatype http_method = GET | POST

record request =
  http :: http_method
  url :: jsstring
  data :: "(jsstring \<times> jsstring) list"

text \<open>
  How the promise of \<open>axios.post\<close> settles. It rejects on a network error and on a status
  outside 2xx. Otherwise it fulfils with \<open>res.data\<close>: \<open>undefined\<close>, \<open>null\<close>, or any other
  value, of which the component reads the property \<open>cards\<close> only (\<open>None\<close> when the value
  has no such property, as for \<open>{}\<close> and for a body that is not JSON, which axios hands
  over as a string).
\<close>

datatype axios_error = NetworkError | BadStatus nat

datatype response_data = DataUndefined | DataNull | DataValue "Product list option"

datatype outcome = Rejected axios_error | Fulfilled response_data

datatype thrown = AxiosError axios_error | TypeError

text \<open>
  The four \<open>useState\<close> cells of the component, and around them the requests that are in
  flight and the lines written by \<open>console.error\<close>.
\<close>

record state =
  query :: jsstring
  input :: jsstring
  products :: "Product list"
  loading :: bool
  in_flight :: "request list"
  console :: "thrown list"

definition initial :: state where
  "initial = \<lparr>query = [], input = [], products = [], loading = False,
              in_flight = [], console = []\<rparr>"

definition setQuery :: "jsstring \<Rightarrow> state \<Rightarrow> state" where
  "setQuery q s = s\<lparr>query := q\<rparr>"

definition setInput :: "jsstring \<Rightarrow> state \<Rightarrow> state" where
  "setInput v s = s\<lparr>input := v\<rparr>"

definition setProducts :: "Product list \<Rightarrow> state \<Rightarrow> state" where
  "setProducts ps s = s\<lparr>products := ps\<rparr>"

definition setLoading :: "bool \<Rightarrow> state \<Rightarrow> state" where
  "setLoading b s = s\<lparr>loading := b\<rparr>"

definition console_error :: "thrown \<Rightarrow> state \<Rightarrow> state" where
  "console_error err s = s\<lparr>console := console s @ [err]\<rparr>"

text \<open>\<open>handleSend\<close>: a string is truthy when it is not empty.\<close>

definition handleSend :: "state \<Rightarrow> state" where
  "handleSend s = (if trim (input s) \<noteq> [] then setQuery (trim (input s)) s else s)"

text \<open>The template literal \<open>`${process.env.NEXT_PUBLIC_API_URL}/recommendation`\<close>.\<close>

definition endpoint :: "env \<Rightarrow> jsstring" where
  "endpoint e =
     (case NEXT_PUBLIC_API_URL e of None \<Rightarrow> js ''undefined'' | Some base \<Rightarrow> base)
     @ js ''/recommendation''"

definition axios_post :: "jsstring \<Rightarrow> (jsstring \<times> jsstring) list \<Rightarrow> state \<Rightarrow> state" where
  "axios_post u d s = s\<lparr>in_flight := in_flight s @ [\<lparr>http = POST, url = u, data = d\<rparr>]\<rparr>"

text \<open>\<open>fetchData\<close> up to its \<open>await\<close>.\<close>

definition fetchData_begin :: "env \<Rightarrow> state \<Rightarrow> state" where
  "fetchData_begin e s =
     axios_post (endpoint e) [(js ''prompt'', query s)] (setLoading True s)"

text \<open>The effect \<open>useEffect(..., [query])\<close>, with its guard \<open>if (!query) return\<close>.\<close>

definition useEffect :: "env \<Rightarrow> state \<Rightarrow> state" where
  "useEffect e s = (if query s = [] then s else fetchData_begin e s)"

text \<open>
  \<open>fetchData\<close> after its \<open>await\<close>: the rest of the \<open>try\<close> block, which ends early when
  the promise rejects or when \<open>res.data.cards\<close> reads a property of \<open>undefined\<close> or
  \<open>null\<close>; then \<open>catch\<close>, then \<open>finally\<close>.
\<close>

definition read_cards :: "response_data \<Rightarrow> thrown + Product list option" where
  "read_cards d =
     (case d of DataUndefined \<Rightarrow> Inl TypeError | DataNull \<Rightarrow> Inl TypeError
      | DataValue c \<Rightarrow> Inr c)"

definition or_empty :: "Product list option \<Rightarrow> Product list" where
  "or_empty c = (case c of None \<Rightarrow> [] | Some ps \<Rightarrow> ps)"

definition try_block :: "outcome \<Rightarrow> state \<Rightarrow> thrown + state" where
  "try_block out s =
     (case out of
        Rejected err \<Rightarrow> Inl (AxiosError err)
      | Fulfilled d \<Rightarrow>
          (case read_cards d of Inl err \<Rightarrow> Inl err
           | Inr c \<Rightarrow> Inr (setProducts (or_empty c) s)))"

definition catch_block :: "thrown \<Rightarrow> state \<Rightarrow> state" where
  "catch_block err s = setProducts [] (console_error err s)"

definition fetchData_resume :: "outcome \<Rightarrow> state \<Rightarrow> state" where
  "fetchData_resume out s =
     setLoading False
       (case try_block out s of Inl err \<Rightarrow> catch_block err s | Inr s' \<Rightarrow> s')"

text \<open>
  The events of the component. React runs an event handler, renders, and runs the effect
  again when \<open>query\<close>, its one dependency, is not the same string as at the last render.
  A step is the handler together with the run of the effect it causes. The state updates
  of one handler, and of one continuation of \<open>fetchData\<close>, reach the screen together.
  \<open>Settle i out\<close> settles the \<open>i\<close>-th request in flight; requests may settle in any
  order, and each continuation acts on the state as it is then.
\<close>

datatype event = Change jsstring | Click | KeyDown jsstring | Settle nat outcome

definition after_handler :: "env \<Rightarrow> (state \<Rightarrow> state) \<Rightarrow> state \<Rightarrow> state" where
  "after_handler e h s =
     (let s' = h s in if query s' = query s then s' else useEffect e s')"

definition onKeyDown :: "jsstring \<Rightarrow> state \<Rightarrow> state" where
  "onKeyDown k s = (if k = js ''Enter'' then handleSend s else s)"

definition settle :: "nat \<Rightarrow> outcome \<Rightarrow> state \<Rightarrow> state" where
  "settle i out s =
     (if i < length (in_flight s)
      then fetchData_resume out
             (s\<lparr>in_flight := take i (in_flight s) @ drop (Suc i) (in_flight s)\<rparr>)
      else s)"

fun step :: "env \<Rightarrow> state \<Rightarrow> event \<Rightarrow> state" where
  "step e s (Change v) = after_handler e (setInput v) s"
| "step e s Click = after_handler e handleSend s"
| "step e s (KeyDown k) = after_handler e (onKeyDown k) s"
| "step e s (Settle i out) = settle i out s"

definition mount :: "env \<Rightarrow> state" where
  "mount e = useEffect e initial"

definition run :: "env \<Rightarrow> event list \<Rightarrow> state" where
  "run e evs = foldl (step e) (mount e) evs"

text \<open>What the component returns: the loader, and the grid when there are products.\<close>

definition card_props :: "env \<Rightarrow> Product \<Rightarrow> ProductCardProps" where
  "card_props e p =
     \<lparr>imageUrl = (case image p of None \<Rightarrow> js ''/placeholder.png'' | Some u \<Rightarrow> u),
      ProductCardProps.title = Product.title p,
      ProductCardProps.price = toLocaleString_trTR e (Product.price p) @ js '' TL'',
      ProductCardProps.rating = Product.rating p,
      ProductCardProps.rating_count = Product.rating_count p,
      ProductCardProps.description = Product.description p,
      ProductCardProps.link = Product.link p\<rparr>"

record view =
  shifted :: bool
  input_value :: jsstring
  loader :: bool
  grid :: "card list option"

definition render :: "env \<Rightarrow> state \<Rightarrow> view" where
  "render e s =
     \<lparr>shifted = (length (products s) > 0),
      input_value = input s,
      loader = loading s,
      grid = (if length (products s) > 0
              then Some (map (\<lambda>p. ProductCard e (card_props e p)) (products s))
              else None)\<rparr>"

text \<open>
  The oldest revision of the component (the copy whose \<open>Product\<close> has \<open>review_count\<close>)
  has the same state, handler and effect; it posts to a literal address and names the
  field \<open>query\<close>, through the shorthand \<open>{ query }\<close>.
\<close>

definition fetchData_begin_localhost :: "state \<Rightarrow> state" where
  "fetchData_begin_localhost s =
     axios_post (js ''http://localhost:5001/recommendation'') [(js ''query'', query s)]
       (setLoading True s)"

definition useEffect_localhost :: "state \<Rightarrow> state" where
  "useEffect_localhost s = (if query s = [] then s else fetchData_begin_localhost s)"

section \<open>A sample environment and a sample record\<close>

definition example_env :: env where
  "example_env =
     \<lparr>NEXT_PUBLIC_API_URL = Some (js ''http://localhost:5001''),
      toLocaleString_trTR = (\<lambda>n. []),
      toLocaleString = (\<lambda>n. [])\<rparr>"

definition example_product :: Product where
  "example_product =
     \<lparr>Product.title = js ''X'', Product.price = Fin 299.99, Product.rating = Fin 4.5,
      Product.rating_count = Fin 120, Product.description = js ''...'',
      image = None, Product.link = js ''https://example.com/x''\<rparr>"

section \<open>Auxiliary facts\<close>

lemmas setter_defs =
  setQuery_def setInput_def setProducts_def setLoading_def console_error_def

lemmas handler_defs =
  after_handler_def handleSend_def onKeyDown_def useEffect_def fetchData_begin_def
  axios_post_def endpoint_def setter_defs

lemmas resume_defs =
  settle_def fetchData_resume_def try_block_def catch_block_def read_cards_def or_empty_def

lemma trim_all_ws: "list_all isWhiteSpace S \<Longrightarrow> trim S = []"
proof -
  assume "list_all isWhiteSpace S"
  then have h: "dropWhile isWhiteSpace S = []"
    by (simp add: list_all_iff)
  show ?thesis
    unfolding trim_def h by simp
qed

lemma renderStars_unfold:
  "renderStars r = [star_of r 1, star_of r 2, star_of r 3, star_of r 4, star_of r 5]"
  unfolding renderStars_def
  by (simp add: renderStars_loop.simps eval_nat_numeral)

lemma fill_not_NaN:
  "r \<noteq> NaN \<Longrightarrow> \<exists>x. filledPercentage (star_of r i) = Fin x \<and> 0 \<le> x \<and> x \<le> 100"
  by (cases r) (simp_all add: star_of_def)

text \<open>A rating that is not a number (a record without \<open>rating\<close>) is outside the clamp.\<close>

lemma renderStars_NaN:
  "map filledPercentage (renderStars NaN) = [NaN, NaN, NaN, NaN, NaN]"
  by (simp add: renderStars_unfold star_of_def)

lemma mount_initial: "mount e = initial"
  by (simp add: mount_def useEffect_def initial_def)

lemmas concrete_defs =
  run_def mount_initial initial_def js_def trim_def isWhiteSpace_def example_env_def

lemma resume_loading: "loading (fetchData_resume out s) = False"
  by (simp add: fetchData_resume_def setLoading_def)

lemma resume_in_flight: "in_flight (fetchData_resume out s) = in_flight s"
  by (simp add: fetchData_resume_def try_block_def catch_block_def setProducts_def
      setLoading_def console_error_def split: sum.splits outcome.splits)

lemma resume_success:
  "fetchData_resume (Fulfilled (DataValue c)) s = s\<lparr>products := or_empty c, loading := False\<rparr>"
  by (simp add: fetchData_resume_def try_block_def read_cards_def setProducts_def
      setLoading_def)

text \<open>When nothing is in flight the loader is off: an invariant of every event.\<close>

lemma quiescent_step:
  assumes "in_flight s = [] \<longrightarrow> \<not> loading s"
  shows "in_flight (step e s ev) = [] \<longrightarrow> \<not> loading (step e s ev)"
proof (cases ev)
  case (Change v)
  with assms show ?thesis by (simp add: handler_defs)
next
  case Click
  with assms show ?thesis by (simp add: handler_defs Let_def)
next
  case (KeyDown k)
  with assms show ?thesis by (simp add: handler_defs Let_def)
next
  case (Settle i out)
  with assms show ?thesis by (simp add: settle_def resume_loading)
qed

lemma quiescent_foldl:
  "(in_flight s = [] \<longrightarrow> \<not> loading s)
   \<Longrightarrow> (in_flight (foldl (step e) s evs) = [] \<longrightarrow> \<not> loading (foldl (step e) s evs))"
proof (induction evs arbitrary: s)
  case Nil
  then show ?case by simp
next
  case (Cons ev evs)
  have "in_flight (step e s ev) = [] \<longrightarrow> \<not> loading (step e s ev)"
    using Cons.prems by (rule quiescent_step)
  then show ?case
    using Cons.IH [of "step e s ev"] by simp
qed

text \<open>
  An event that adds a request is a submission: the request is appended last, and it
  carries the trimmed input, which is then the current query.
\<close>

lemma dispatch_shape:
  "length (in_flight s) < length (in_flight (step e s ev)) \<Longrightarrow>
     query (step e s ev) = trim (input s) \<and> trim (input s) \<noteq> []
     \<and> trim (input s) \<noteq> query s
     \<and> in_flight (step e s ev)
         = in_flight s @ [\<lparr>http = POST, url = endpoint e,
                           data = [(js ''prompt'', trim (input s))]\<rparr>]"
proof (cases ev)
  case (Change v)
  assume "length (in_flight s) < length (in_flight (step e s ev))"
  with Change show ?thesis by (simp add: handler_defs)
next
  case Click
  assume "length (in_flight s) < length (in_flight (step e s ev))"
  with Click show ?thesis
    by (simp add: after_handler_def handleSend_def useEffect_def fetchData_begin_def
        axios_post_def setter_defs Let_def split: if_splits)
next
  case (KeyDown k)
  assume "length (in_flight s) < length (in_flight (step e s ev))"
  with KeyDown show ?thesis
    by (simp add: after_handler_def handleSend_def onKeyDown_def useEffect_def
        fetchData_begin_def axios_post_def setter_defs Let_def split: if_splits)
next
  case (Settle i out)
  assume "length (in_flight s) < length (in_flight (step e s ev))"
  with Settle show ?thesis
    by (auto simp add: settle_def resume_in_flight split: if_splits)
qed

section \<open>The loading flag and the product list\<close>

text \<open>
  C1, as the component has it. A response that succeeds sets \<open>loading\<close> to false and, in
  the same update, replaces the product list by exactly the list of the response (the
  empty list when the response has no \<open>cards\<close>), whatever the list was before; and in
  every state the component can reach, \<open>loading\<close> is false whenever no request is in
  flight. The two are not exclusive while a request is in flight: the products of the
  last response stay in the list, and on the screen, until the next response arrives.
\<close>

theorem C1_success_replaces_list:
  "i < length (in_flight s) \<Longrightarrow>
     loading (step e s (Settle i (Fulfilled (DataValue (Some cs))))) = False
   \<and> products (step e s (Settle i (Fulfilled (DataValue (Some cs))))) = cs
   \<and> products (step e s (Settle i (Fulfilled (DataValue None)))) = []
   \<and> (in_flight (run e evs) = [] \<longrightarrow> loading (run e evs) = False)"
proof -
  assume i: "i < length (in_flight s)"
  have "in_flight (mount e) = [] \<longrightarrow> \<not> loading (mount e)"
    by (simp add: mount_initial initial_def)
  then have "in_flight (run e evs) = [] \<longrightarrow> \<not> loading (run e evs)"
    unfolding run_def by (rule quiescent_foldl)
  with i show ?thesis
    by (simp add: settle_def resume_success or_empty_def)
qed

theorem C1_success_replaces_list_witness:
  "0 < length (in_flight (run example_env [Change (js ''a''), Click]))
   \<and> loading (step example_env (run example_env [Change (js ''a''), Click])
        (Settle 0 (Fulfilled (DataValue (Some [example_product]))))) = False
   \<and> products (step example_env (run example_env [Change (js ''a''), Click])
        (Settle 0 (Fulfilled (DataValue (Some [example_product]))))) = [example_product]
   \<and> in_flight (run example_env [Change (js ''a''), Click, Settle 0 (Rejected NetworkError)]) = []
   \<and> loading (run example_env [Change (js ''a''), Click, Settle 0 (Rejected NetworkError)]) = False"
proof -
  have h: "0 < length (in_flight (run example_env [Change (js ''a''), Click]))"
    by (simp add: concrete_defs handler_defs)
  have q: "in_flight (run example_env [Change (js ''a''), Click, Settle 0 (Rejected NetworkError)]) = []"
    by (simp add: concrete_defs handler_defs resume_defs)
  show ?thesis
    using h q C1_success_replaces_list [OF h, of example_env "[example_product]"
        "[Change (js ''a''), Click, Settle 0 (Rejected NetworkError)]"]
    by simp
qed

text \<open>
  The state in which both hold: one product has arrived for the query \<open>a\<close>, and the
  query \<open>b\<close> has just been submitted.
\<close>

theorem C1_counterexample:
  "loading (run example_env
      [Change (js ''a''), Click,
       Settle 0 (Fulfilled (DataValue (Some [example_product]))),
       Change (js ''b''), Click])
   \<and> products (run example_env
      [Change (js ''a''), Click,
       Settle 0 (Fulfilled (DataValue (Some [example_product]))),
       Change (js ''b''), Click]) \<noteq> []"
  by (simp add: concrete_defs handler_defs resume_defs)

section \<open>Submitting\<close>

text \<open>
  C2. When the input consists of white space only (or is empty), a click on the button
  and the Enter key change nothing: the state, with its requests in flight, is the same
  afterwards. Typed into the fresh component and submitted, such an input leaves the
  query unset, \<open>loading\<close> false and no request in flight.
\<close>

theorem C2_whitespace_submit_ignored:
  "list_all isWhiteSpace S \<Longrightarrow>
     step e (s\<lparr>input := S\<rparr>) Click = s\<lparr>input := S\<rparr>
   \<and> step e (s\<lparr>input := S\<rparr>) (KeyDown (js ''Enter'')) = s\<lparr>input := S\<rparr>
   \<and> query (run e [Change S, Click]) = []
   \<and> loading (run e [Change S, Click]) = False
   \<and> in_flight (run e [Change S, Click]) = []"
proof -
  assume ws: "list_all isWhiteSpace S"
  then have t: "trim S = []"
    by (rule trim_all_ws)
  have send: "handleSend (s\<lparr>input := S\<rparr>) = s\<lparr>input := S\<rparr>" for s
    by (simp add: handleSend_def t)
  have click: "step e (s\<lparr>input := S\<rparr>) Click = s\<lparr>input := S\<rparr>" for s
    by (simp add: after_handler_def send)
  have enter: "step e (s\<lparr>input := S\<rparr>) (KeyDown (js ''Enter'')) = s\<lparr>input := S\<rparr>"
    by (simp add: after_handler_def onKeyDown_def send)
  have r: "run e [Change S, Click] = initial\<lparr>input := S\<rparr>"
    by (simp add: run_def mount_initial after_handler_def setInput_def send)
  from click [of s] enter r show ?thesis
    by (simp add: initial_def)
qed

theorem C2_whitespace_submit_ignored_witness:
  "list_all isWhiteSpace [0x20, 0x09, 0x3000]
   \<and> step example_env (initial\<lparr>input := [0x20, 0x09, 0x3000]\<rparr>) Click
       = initial\<lparr>input := [0x20, 0x09, 0x3000]\<rparr>
   \<and> in_flight (run example_env [Change [0x20, 0x09, 0x3000], Click]) = []"
proof -
  have h: "list_all isWhiteSpace [0x20, 0x09, 0x3000]"
    by (simp add: isWhiteSpace_def)
  show ?thesis
    using h C2_whitespace_submit_ignored [OF h, of example_env initial]
    by simp
qed

text \<open>
  C10. A submission whose trimmed input is the current query changes nothing, by the
  button and by the Enter key alike; a click adds a request exactly when the trimmed
  input is not empty and is not the current query.
\<close>

theorem C10_same_query_noop:
  "(trim (input s) = query s \<longrightarrow>
      step e s Click = s \<and> step e s (KeyDown (js ''Enter'')) = s)
   \<and> (in_flight (step e s Click) \<noteq> in_flight s
        \<longleftrightarrow> trim (input s) \<noteq> [] \<and> trim (input s) \<noteq> query s)"
  by (auto simp add: handler_defs Let_def)

theorem C10_same_query_noop_witness:
  "trim (input (run example_env [Change (js ''a''), Click, Change (js '' a '')]))
     = query (run example_env [Change (js ''a''), Click, Change (js '' a '')])
   \<and> step example_env (run example_env [Change (js ''a''), Click, Change (js '' a '')]) Click
       = run example_env [Change (js ''a''), Click, Change (js '' a '')]
   \<and> length (in_flight (run example_env [Change (js ''a''), Click, Change (js '' a ''), Click])) = 1"
proof -
  have h: "trim (input (run example_env [Change (js ''a''), Click, Change (js '' a '')]))
     = query (run example_env [Change (js ''a''), Click, Change (js '' a '')])"
    by (simp add: concrete_defs handler_defs)
  have n: "length (in_flight (run example_env [Change (js ''a''), Click, Change (js '' a ''), Click])) = 1"
    by (simp add: concrete_defs handler_defs)
  show ?thesis
    using h n C10_same_query_noop [of "run example_env [Change (js ''a''), Click, Change (js '' a '')]"
        example_env]
    by simp
qed

section \<open>The request\<close>

text \<open>
  C7. With an empty query the effect does nothing. With a query \<open>q\<close> that is not empty
  it adds one request: a POST to the configured base address followed by
  \<open>/recommendation\<close>, whose body has the single field \<open>prompt\<close> with value \<open>q\<close>. An event
  that adds a request adds exactly that one, and the value it carries is the trimmed
  input, not empty. The oldest revision does the same towards its literal address, with
  the single field \<open>query\<close>.
\<close>

theorem C7_single_post:
  "useEffect e (s\<lparr>query := []\<rparr>) = s\<lparr>query := []\<rparr>
   \<and> (q \<noteq> [] \<longrightarrow>
        in_flight (useEffect (e\<lparr>NEXT_PUBLIC_API_URL := Some base\<rparr>) (s\<lparr>query := q\<rparr>))
        = in_flight s @ [\<lparr>http = POST, url = base @ js ''/recommendation'',
                          data = [(js ''prompt'', q)]\<rparr>])
   \<and> (length (in_flight s) < length (in_flight (step e s ev)) \<longrightarrow>
        query (step e s ev) = trim (input s) \<and> trim (input s) \<noteq> []
        \<and> in_flight (step e s ev)
            = in_flight s @ [\<lparr>http = POST, url = endpoint e,
                              data = [(js ''prompt'', trim (input s))]\<rparr>])
   \<and> useEffect_localhost (s\<lparr>query := []\<rparr>) = s\<lparr>query := []\<rparr>
   \<and> (q \<noteq> [] \<longrightarrow>
        in_flight (useEffect_localhost (s\<lparr>query := q\<rparr>))
        = in_flight s @ [\<lparr>http = POST, url = js ''http://localhost:5001'' @ js ''/recommendation'',
                          data = [(js ''query'', q)]\<rparr>])"
proof -
  have guard: "useEffect e (s\<lparr>query := []\<rparr>) = s\<lparr>query := []\<rparr>"
    by (simp add: useEffect_def)
  have fires: "q \<noteq> [] \<longrightarrow>
        in_flight (useEffect (e\<lparr>NEXT_PUBLIC_API_URL := Some base\<rparr>) (s\<lparr>query := q\<rparr>))
        = in_flight s @ [\<lparr>http = POST, url = base @ js ''/recommendation'',
                          data = [(js ''prompt'', q)]\<rparr>]"
    by (simp add: useEffect_def fetchData_begin_def axios_post_def endpoint_def setLoading_def)
  have guard': "useEffect_localhost (s\<lparr>query := []\<rparr>) = s\<lparr>query := []\<rparr>"
    by (simp add: useEffect_localhost_def)
  have fires': "q \<noteq> [] \<longrightarrow>
        in_flight (useEffect_localhost (s\<lparr>query := q\<rparr>))
        = in_flight s @ [\<lparr>http = POST, url = js ''http://localhost:5001'' @ js ''/recommendation'',
                          data = [(js ''query'', q)]\<rparr>]"
    by (simp add: useEffect_localhost_def fetchData_begin_localhost_def axios_post_def
        setLoading_def js_def)
  from guard fires guard' fires' dispatch_shape [of s e ev] show ?thesis
    by blast
qed

theorem C7_single_post_witness:
  "js ''a b'' \<noteq> []
   \<and> in_flight (useEffect (example_env\<lparr>NEXT_PUBLIC_API_URL := Some (js ''http://api'')\<rparr>)
        (initial\<lparr>query := js ''a b''\<rparr>))
      = [\<lparr>http = POST, url = js ''http://api/recommendation'',
          data = [(js ''prompt'', js ''a b'')]\<rparr>]
   \<and> length (in_flight (initial\<lparr>input := js '' a b ''\<rparr>))
       < length (in_flight (step example_env (initial\<lparr>input := js '' a b ''\<rparr>) Click))
   \<and> in_flight (step example_env (initial\<lparr>input := js '' a b ''\<rparr>) Click)
      = [\<lparr>http = POST, url = js ''http://localhost:5001/recommendation'',
          data = [(js ''prompt'', js ''a b'')]\<rparr>]"
proof -
  have h1: "js ''a b'' \<noteq> []"
    by (simp add: js_def)
  have h2: "length (in_flight (initial\<lparr>input := js '' a b ''\<rparr>))
       < length (in_flight (step example_env (initial\<lparr>input := js '' a b ''\<rparr>) Click))"
    by (simp add: concrete_defs handler_defs)
  have u: "endpoint example_env = js ''http://localhost:5001/recommendation''"
    by (simp add: endpoint_def example_env_def js_def)
  show ?thesis
    using h1 h2
      C7_single_post [where e = example_env and s = initial and q = "js ''a b''"
        and base = "js ''http://api''" and ev = Click]
      C7_single_post [where e = example_env and s = "initial\<lparr>input := js '' a b ''\<rparr>"
        and q = "js ''a b''" and base = "js ''http://api''" and ev = Click]
    by (simp add: u initial_def js_def trim_def isWhiteSpace_def)
qed

text \<open>
  C3. An event that adds a request leaves \<open>loading\<close> true: the effect, when the query is
  not empty, sets the flag and adds one request. After the request settles, by whatever
  outcome, \<open>loading\<close> is false.
\<close>

theorem C3_loading_bracket:
  "(length (in_flight s) < length (in_flight (step e s ev)) \<longrightarrow> loading (step e s ev) = True)
   \<and> (query s \<noteq> [] \<longrightarrow> loading (useEffect e s) = True
         \<and> length (in_flight (useEffect e s)) = Suc (length (in_flight s)))
   \<and> loading (fetchData_resume out s') = False
   \<and> (i < length (in_flight s') \<longrightarrow> loading (step e s' (Settle i out)) = False)"
proof -
  have dispatch: "length (in_flight s) < length (in_flight (step e s ev)) \<longrightarrow> loading (step e s ev)"
  proof (cases ev)
    case (Change v)
    then show ?thesis by (simp add: handler_defs)
  next
    case Click
    then show ?thesis by (simp add: handler_defs Let_def)
  next
    case (KeyDown k)
    then show ?thesis by (simp add: handler_defs Let_def)
  next
    case (Settle j out')
    then show ?thesis by (auto simp add: settle_def resume_in_flight)
  qed
  have started: "query s \<noteq> [] \<longrightarrow> loading (useEffect e s) = True
         \<and> length (in_flight (useEffect e s)) = Suc (length (in_flight s))"
    by (simp add: useEffect_def fetchData_begin_def axios_post_def setLoading_def)
  have settled: "i < length (in_flight s') \<longrightarrow> loading (step e s' (Settle i out)) = False"
    by (simp add: settle_def resume_loading)
  from dispatch started settled show ?thesis
    by (simp add: resume_loading)
qed

theorem C3_loading_bracket_witness:
  "length (in_flight (initial\<lparr>input := js ''a''\<rparr>))
     < length (in_flight (step example_env (initial\<lparr>input := js ''a''\<rparr>) Click))
   \<and> loading (step example_env (initial\<lparr>input := js ''a''\<rparr>) Click) = True
   \<and> query (initial\<lparr>query := js ''a''\<rparr>) \<noteq> []
   \<and> loading (useEffect example_env (initial\<lparr>query := js ''a''\<rparr>)) = True
   \<and> 0 < length (in_flight (step example_env (initial\<lparr>input := js ''a''\<rparr>) Click))
   \<and> loading (step example_env (step example_env (initial\<lparr>input := js ''a''\<rparr>) Click)
        (Settle 0 (Rejected NetworkError))) = False"
proof -
  have h1: "length (in_flight (initial\<lparr>input := js ''a''\<rparr>))
     < length (in_flight (step example_env (initial\<lparr>input := js ''a''\<rparr>) Click))"
    by (simp add: concrete_defs handler_defs)
  have h2: "query (initial\<lparr>query := js ''a''\<rparr>) \<noteq> []"
    by (simp add: js_def)
  have h3: "0 < length (in_flight (step example_env (initial\<lparr>input := js ''a''\<rparr>) Click))"
    by (simp add: concrete_defs handler_defs)
  show ?thesis
    using h1 h2 h3
      C3_loading_bracket [of "initial\<lparr>input := js ''a''\<rparr>" example_env Click
        "Rejected NetworkError" "step example_env (initial\<lparr>input := js ''a''\<rparr>) Click" 0]
      C3_loading_bracket [of "initial\<lparr>query := js ''a''\<rparr>" example_env Click
        "Rejected NetworkError" "step example_env (initial\<lparr>input := js ''a''\<rparr>) Click" 0]
    by simp
qed

section \<open>The response\<close>

text \<open>
  C4. Whatever the product list holds, a request that fails leaves it empty: when the
  promise rejects (network error, status outside 2xx), when the body is \<open>null\<close> or
  \<open>undefined\<close> so that reading \<open>cards\<close> throws, and when the body is not JSON, which
  axios hands over as a string without \<open>cards\<close>. A rejection is logged. In particular a
  list of N > 0 products is empty after a failed request.
\<close>

theorem C4_failure_clears:
  "products (fetchData_resume (Rejected err) s) = []
   \<and> products (fetchData_resume (Fulfilled DataNull) s) = []
   \<and> products (fetchData_resume (Fulfilled DataUndefined) s) = []
   \<and> products (fetchData_resume (Fulfilled (DataValue None)) s) = []
   \<and> console (fetchData_resume (Rejected err) s) = console s @ [AxiosError err]
   \<and> (i < length (in_flight s) \<and> 0 < length (products s)
        \<longrightarrow> products (step e s (Settle i (Rejected err))) = [])"
  by (simp add: resume_defs setter_defs)

theorem C4_failure_clears_witness:
  "0 < length (in_flight (run example_env
        [Change (js ''a''), Click,
         Settle 0 (Fulfilled (DataValue (Some [example_product]))),
         Change (js ''b''), Click]))
   \<and> 0 < length (products (run example_env
        [Change (js ''a''), Click,
         Settle 0 (Fulfilled (DataValue (Some [example_product]))),
         Change (js ''b''), Click]))
   \<and> products (step example_env (run example_env
        [Change (js ''a''), Click,
         Settle 0 (Fulfilled (DataValue (Some [example_product]))),
         Change (js ''b''), Click]) (Settle 0 (Rejected (BadStatus 500)))) = []"
proof -
  have h: "0 < length (in_flight (run example_env
        [Change (js ''a''), Click,
         Settle 0 (Fulfilled (DataValue (Some [example_product]))),
         Change (js ''b''), Click]))
   \<and> 0 < length (products (run example_env
        [Change (js ''a''), Click,
         Settle 0 (Fulfilled (DataValue (Some [example_product]))),
         Change (js ''b''), Click]))"
    by (simp add: concrete_defs handler_defs resume_defs)
  show ?thesis
    using h C4_failure_clears [of "BadStatus 500" "run example_env
        [Change (js ''a''), Click,
         Settle 0 (Fulfilled (DataValue (Some [example_product]))),
         Change (js ''b''), Click]" 0 example_env]
    by simp
qed

text \<open>
  C5. A response whose body has no \<open>cards\<close> (as \<open>{}\<close>) completes the \<open>try\<close> block
  without throwing: the product list becomes empty, \<open>loading\<close> false, and nothing is
  logged. When \<open>cards\<close> is there, the product list becomes that list, whatever it was.
\<close>

theorem C5_missing_cards_field:
  "try_block (Fulfilled (DataValue None)) s = Inr (s\<lparr>products := []\<rparr>)
   \<and> fetchData_resume (Fulfilled (DataValue None)) s = s\<lparr>products := [], loading := False\<rparr>
   \<and> console (fetchData_resume (Fulfilled (DataValue None)) s) = console s
   \<and> fetchData_resume (Fulfilled (DataValue (Some cs))) s = s\<lparr>products := cs, loading := False\<rparr>"
  by (simp add: resume_defs setter_defs)

section \<open>The card\<close>

text \<open>
  C6. For a record with the finite rating \<open>r\<close> the card shows the five stars of
  \<open>renderStars\<close>, with keys 1 to 5; the fill of star \<open>i\<close> is \<open>r - (i - 1)\<close> clamped to
  [0, 1], as a percentage. The rating 3.5 gives three full stars, one star filled to
  50% and one empty star; 5 gives five full stars; 0 gives five empty stars.
\<close>

theorem C6_star_fill:
  "map filledPercentage (renderStars (Fin r))
     = map (\<lambda>i. Fin (min (max (r - (real i - 1)) 0) 1 * 100)) [1, 2, 3, 4, 5]
   \<and> map key (renderStars (Fin r)) = [1, 2, 3, 4, 5]
   \<and> map filledPercentage (renderStars (Fin 3.5)) = [Fin 100, Fin 100, Fin 100, Fin 50, Fin 0]
   \<and> map filledPercentage (renderStars (Fin 5)) = [Fin 100, Fin 100, Fin 100, Fin 100, Fin 100]
   \<and> map filledPercentage (renderStars (Fin 0)) = [Fin 0, Fin 0, Fin 0, Fin 0, Fin 0]
   \<and> stars (ProductCard e (card_props e (p\<lparr>Product.rating := Fin r\<rparr>))) = renderStars (Fin r)"
  by (simp add: renderStars_unfold star_of_def ProductCard_def card_props_def)

text \<open>
  C9. For every rating that is a number, finite or infinite, below 0 and above 5
  included, \<open>renderStars\<close> returns five stars and the fill of each is a finite percentage
  between 0 and 100.
\<close>

theorem C9_five_stars_bounded:
  "r \<noteq> NaN \<Longrightarrow>
     length (renderStars r) = 5
     \<and> (\<forall>st \<in> set (renderStars r). \<exists>x. filledPercentage st = Fin x \<and> 0 \<le> x \<and> x \<le> 100)"
  by (simp add: renderStars_unfold fill_not_NaN)

theorem C9_five_stars_bounded_witness:
  "Fin (-3) \<noteq> NaN
   \<and> length (renderStars (Fin (-3))) = 5
   \<and> list_all (\<lambda>st. \<exists>x. filledPercentage st = Fin x \<and> 0 \<le> x \<and> x \<le> 100)
        (renderStars (Fin (-3)))
   \<and> PosInf \<noteq> NaN
   \<and> length (renderStars PosInf) = 5
   \<and> list_all (\<lambda>st. \<exists>x. filledPercentage st = Fin x \<and> 0 \<le> x \<and> x \<le> 100)
        (renderStars PosInf)"
  using C9_five_stars_bounded [of "Fin (-3)"] C9_five_stars_bounded [of PosInf]
  by (simp add: list_all_iff)

text \<open>
  C8. The image of the card of a record whose \<open>image\<close> is \<open>null\<close> is
  \<open>/placeholder.png\<close>; the image of the card of a record with an address is that
  address. So it is in the grid of the component.
\<close>

theorem C8_image_fallback:
  "img_src (ProductCard e (card_props e (p\<lparr>image := None\<rparr>))) = js ''/placeholder.png''
   \<and> img_src (ProductCard e (card_props e (p\<lparr>image := Some u\<rparr>))) = u
   \<and> map_option (map img_src) (grid (render e (s\<lparr>products := [p\<lparr>image := None\<rparr>]\<rparr>)))
       = Some [js ''/placeholder.png'']"
  by (simp add: ProductCard_def card_props_def render_def)

end
